theory Spec2Isabelle
  imports Complex_Main "HOL-Library.Char_ord" "HOL-Library.List_Lexorder"
begin

section \<open>Python values and exceptions\<close>

text \<open>
  The script handles the values that \<^verbatim>\<open>json.loads\<close> produces. A character stands for one
  code point (all letters the script compares against lie below 256), so \<open>take 10\<close> is the
  slice \<^verbatim>\<open>[:10]\<close> and the order on strings is the order Python's \<^verbatim>\<open>str\<close> comparison uses.
  \<open>JNull\<close> is Python's \<^verbatim>\<open>None\<close>. A JSON object is the list of its items with distinct keys,
  in insertion order.
\<close>

datatype py_error =
  IndexError | KeyError | TypeError | AttributeError | ValueError | OverflowError
  | JSONDecodeError

datatype pyfloat = Finite rat | Infinite | NaN

datatype json =
  JNull | JBool bool | JInt int | JFloat pyfloat | JStr string
  | JList "json list" | JDict "(string \<times> json) list"

text \<open>Sequencing: an exception raised by the first step skips the rest.\<close>

definition then_do :: "py_error + 'a \<Rightarrow> ('a \<Rightarrow> py_error + 'b) \<Rightarrow> py_error + 'b" where
  "then_do m f = (case m of Inl e \<Rightarrow> Inl e | Inr v \<Rightarrow> f v)"

text \<open>\<^verbatim>\<open>v.get(k, default)\<close>: only a dict has the method.\<close>

fun py_get :: "json \<Rightarrow> string \<Rightarrow> json \<Rightarrow> py_error + json" where
  "py_get (JDict kvs) k dflt = Inr (case map_of kvs k of Some v \<Rightarrow> v | None \<Rightarrow> dflt)"
| "py_get _ k dflt = Inl AttributeError"

text \<open>\<^verbatim>\<open>v["key"]\<close>: a list or a string takes no string as index.\<close>

fun py_item :: "json \<Rightarrow> string \<Rightarrow> py_error + json" where
  "py_item (JDict kvs) k = (case map_of kvs k of Some v \<Rightarrow> Inr v | None \<Rightarrow> Inl KeyError)"
| "py_item _ k = Inl TypeError"

text \<open>\<^verbatim>\<open>v[0]\<close>: a JSON object has only string keys, so the key \<^verbatim>\<open>0\<close> is never there.\<close>

fun py_index0 :: "json \<Rightarrow> py_error + json" where
  "py_index0 (JList []) = Inl IndexError"
| "py_index0 (JList (x # xs)) = Inr x"
| "py_index0 (JStr []) = Inl IndexError"
| "py_index0 (JStr (c # cs)) = Inr (JStr [c])"
| "py_index0 (JDict kvs) = Inl KeyError"
| "py_index0 _ = Inl TypeError"

text \<open>
  \<^verbatim>\<open>v[:10]\<close>: strings and lists are sliced; \<^verbatim>\<open>None\<close>, numbers and booleans are not
  subscriptable, and a dict rejects the slice as a key (\<^verbatim>\<open>TypeError\<close> up to Python 3.11,
  \<^verbatim>\<open>KeyError\<close> from 3.12; the extractor catches both alike).
\<close>

fun py_slice10 :: "json \<Rightarrow> py_error + json" where
  "py_slice10 (JStr s) = Inr (JStr (take 10 s))"
| "py_slice10 (JList xs) = Inr (JList (take 10 xs))"
| "py_slice10 _ = Inl TypeError"

text \<open>\<^verbatim>\<open>for x in v\<close>: a dict yields its keys, a string its characters.\<close>

fun py_iter :: "json \<Rightarrow> py_error + json list" where
  "py_iter (JList xs) = Inr xs"
| "py_iter (JStr s) = Inr (map (\<lambda>c. JStr [c]) s)"
| "py_iter (JDict kvs) = Inr (map (\<lambda>kv. JStr (fst kv)) kvs)"
| "py_iter _ = Inl TypeError"

text \<open>Truth value of a value, as \<^verbatim>\<open>if v\<close> and \<^verbatim>\<open>not v\<close> take it.\<close>

fun truthy :: "json \<Rightarrow> bool" where
  "truthy JNull = False"
| "truthy (JBool b) = b"
| "truthy (JInt n) = (n \<noteq> 0)"
| "truthy (JFloat f) = (f \<noteq> Finite 0)"
| "truthy (JStr s) = (s \<noteq> [])"
| "truthy (JList xs) = (xs \<noteq> [])"
| "truthy (JDict kvs) = (kvs \<noteq> [])"

text \<open>\<^verbatim>\<open>v == "literal"\<close> and \<^verbatim>\<open>v == n\<close> for an integer literal other than 0 and 1.\<close>

fun eq_str :: "json \<Rightarrow> string \<Rightarrow> bool" where
  "eq_str (JStr s) t = (s = t)"
| "eq_str _ t = False"


fun is_dict :: "json \<Rightarrow> bool" where
  "is_dict (JDict kvs) = True"
| "is_dict _ = False"

fun is_list :: "json \<Rightarrow> bool" where
  "is_list (JList xs) = True"
| "is_list _ = False"

subsection \<open>The conversion \<^verbatim>\<open>int(v)\<close>\<close>

text \<open>
  On a string: surrounding whitespace is dropped, then an optional sign, then decimal
  digits, where single underscores may stand between digits; more than 4300 digits are
  refused (the default limit of Python 3.11). The whitespace that \<^verbatim>\<open>int\<close> drops is not that
  of \<^verbatim>\<open>str.strip\<close>: the separators with the code points 28 to 31 are stripped by
  \<^verbatim>\<open>str.strip\<close> and refused by \<^verbatim>\<open>int\<close>.
\<close>

definition is_space :: "char \<Rightarrow> bool" where
  "is_space c = (of_char c \<in> {9, 10, 11, 12, 13, 28, 29, 30, 31, 32, 133, 160 :: nat})"

definition is_space_int :: "char \<Rightarrow> bool" where
  "is_space_int c = (of_char c \<in> {9, 10, 11, 12, 13, 32, 133, 160 :: nat})"

definition is_digit :: "char \<Rightarrow> bool" where
  "is_digit c = (48 \<le> (of_char c :: nat) \<and> (of_char c :: nat) \<le> 57)"

text \<open>\<^verbatim>\<open>s.strip()\<close>.\<close>

definition strip :: "string \<Rightarrow> string" where
  "strip s = rev (dropWhile is_space (rev (dropWhile is_space s)))"

definition strip_int :: "string \<Rightarrow> string" where
  "strip_int s = rev (dropWhile is_space_int (rev (dropWhile is_space_int s)))"

fun digits_val :: "nat \<Rightarrow> bool \<Rightarrow> string \<Rightarrow> nat option" where
  "digits_val acc prev_digit [] = (if prev_digit then Some acc else None)"
| "digits_val acc prev_digit (c # cs) =
     (if is_digit c then digits_val (10 * acc + (of_char c - 48)) True cs
      else if c = CHR ''_'' \<and> prev_digit then digits_val acc False cs
      else None)"

definition digits_limited :: "string \<Rightarrow> nat option" where
  "digits_limited cs =
     (if 4300 < length (filter is_digit cs) then None else digits_val 0 False cs)"

definition int_of_str :: "string \<Rightarrow> int option" where
  "int_of_str s =
     (case strip_int s of
        [] \<Rightarrow> None
      | c # cs \<Rightarrow>
          if c = CHR ''-'' then map_option (\<lambda>n. - int n) (digits_limited cs)
          else if c = CHR ''+'' then map_option int (digits_limited cs)
          else map_option int (digits_limited (c # cs)))"

fun py_int :: "json \<Rightarrow> py_error + int" where
  "py_int (JInt n) = Inr n"
| "py_int (JBool b) = Inr (if b then 1 else 0)"
| "py_int (JFloat (Finite q)) = Inr (if 0 \<le> q then \<lfloor>q\<rfloor> else \<lceil>q\<rceil>)"
| "py_int (JFloat Infinite) = Inl OverflowError"
| "py_int (JFloat NaN) = Inl ValueError"
| "py_int (JStr s) = (case int_of_str s of Some n \<Rightarrow> Inr n | None \<Rightarrow> Inl ValueError)"
| "py_int _ = Inl TypeError"

section \<open>The temperature extractor\<close>

text \<open>
  \<^verbatim>\<open>_extraer_temp_dia(datos, fecha_objetivo)\<close>. The two descriptions the source compares
  against carry an accented vowel as their second letter: a with acute (\<open>CHR 0xE1\<close>) in
  the word for the maximum, i with acute (\<open>CHR 0xED\<close>) in the word for the minimum.
\<close>

definition Maxima :: string where
  "Maxima = CHR ''M'' # CHR 0xE1 # ''xima''"

definition Minima :: string where
  "Minima = CHR ''M'' # CHR 0xED # ''nima''"

text \<open>The pair is \<open>(t_min, t_max)\<close>, as the function returns it.\<close>

type_synonym temps = "json \<times> json"

text \<open>
  The inner loop over a list-shaped temperature block. \<^verbatim>\<open>t.get("valor", t.get("value"))\<close>
  evaluates the default first; on a dict neither call raises.
\<close>

definition valor :: "json \<Rightarrow> py_error + json" where
  "valor t = then_do (py_get t ''value'' JNull) (\<lambda>d. py_get t ''valor'' d)"

fun leer_lista :: "json list \<Rightarrow> temps \<Rightarrow> py_error + temps" where
  "leer_lista [] tt = Inr tt"
| "leer_lista (t # ts) (t_min, t_max) =
     then_do (py_get t ''descripcion'' JNull) (\<lambda>d.
     then_do (if eq_str d Maxima then Inr True
              else then_do (py_get t ''periodo'' JNull) (\<lambda>p. Inr (eq_str p ''00-24''))) (\<lambda>es_max.
     then_do (if es_max then valor t else Inr t_max) (\<lambda>t_max'.
     then_do (py_get t ''descripcion'' JNull) (\<lambda>d2.
     then_do (if eq_str d2 Minima then valor t else Inr t_min) (\<lambda>t_min'.
     leer_lista ts (t_min', t_max'))))))"

text \<open>The body of \<^verbatim>\<open>if fecha_dia == fecha_objetivo:\<close>, reading either shape of block.\<close>

definition leer_dia :: "json \<Rightarrow> py_error + temps" where
  "leer_dia dia =
     then_do (py_get dia ''temperatura'' (JDict [])) (\<lambda>temps.
       if is_dict temps then
         then_do (py_get temps ''maxima'' JNull) (\<lambda>t_max.
         then_do (py_get temps ''minima'' JNull) (\<lambda>t_min.
         Inr (t_min, t_max)))
       else if is_list temps then
         then_do (py_iter temps) (\<lambda>ts. leer_lista ts (JNull, JNull))
       else Inr (JNull, JNull))"

text \<open>The loop \<^verbatim>\<open>for dia in dias\<close>, left by \<^verbatim>\<open>break\<close> at the first day whose date matches.\<close>

fun buscar_dia :: "json list \<Rightarrow> string \<Rightarrow> py_error + temps" where
  "buscar_dia [] fecha_objetivo = Inr (JNull, JNull)"
| "buscar_dia (dia # dias) fecha_objetivo =
     then_do (py_get dia ''fecha'' (JStr [])) (\<lambda>f.
     then_do (py_slice10 f) (\<lambda>fecha_dia.
     if eq_str fecha_dia fecha_objetivo then leer_dia dia
     else buscar_dia dias fecha_objetivo))"

text \<open>The fallback after the loop: only a dict-shaped block of the first day is read.\<close>

definition primer_dia :: "json \<Rightarrow> temps \<Rightarrow> py_error + temps" where
  "primer_dia dias tt =
     (if fst tt = JNull \<and> snd tt = JNull \<and> truthy dias then
        then_do (py_index0 dias) (\<lambda>dia.
        then_do (py_get dia ''temperatura'' (JDict [])) (\<lambda>temps.
        if is_dict temps then
          then_do (py_get temps ''maxima'' JNull) (\<lambda>t_max.
          then_do (py_get temps ''minima'' JNull) (\<lambda>t_min.
          Inr (t_min, t_max)))
        else Inr tt))
      else Inr tt)"

text \<open>The body of the first \<^verbatim>\<open>try\<close>.\<close>

definition extraer_cuerpo :: "json \<Rightarrow> string \<Rightarrow> py_error + temps" where
  "extraer_cuerpo datos fecha_objetivo =
     then_do (py_index0 datos) (\<lambda>d0.
     then_do (py_get d0 ''prediccion'' (JDict [])) (\<lambda>prediccion.
     then_do (py_get prediccion ''dia'' (JList [])) (\<lambda>dias.
     then_do (py_iter dias) (\<lambda>ds.
     then_do (buscar_dia ds fecha_objetivo) (\<lambda>tt.
     primer_dia dias tt)))))"

text \<open>
  \<^verbatim>\<open>except (IndexError, KeyError, TypeError): pass\<close>. Every operation that can raise one of
  the three runs before the first assignment to \<^verbatim>\<open>t_min\<close> or \<^verbatim>\<open>t_max\<close>, so both are still
  \<^verbatim>\<open>None\<close> in the handler. Any other exception leaves the function.
\<close>

definition extraer_try :: "json \<Rightarrow> string \<Rightarrow> py_error + temps" where
  "extraer_try datos fecha_objetivo =
     (case extraer_cuerpo datos fecha_objetivo of
        Inl e \<Rightarrow> if e \<in> {IndexError, KeyError, TypeError} then Inr (JNull, JNull) else Inl e
      | Inr tt \<Rightarrow> Inr tt)"

text \<open>
  \<^verbatim>\<open>try: t = int(t) if t is not None else None\<close> with
  \<^verbatim>\<open>except (ValueError, TypeError): pass\<close>: when the conversion fails the variable keeps
  the value it had.
\<close>

definition convertir :: "json \<Rightarrow> py_error + json" where
  "convertir t =
     (if t = JNull then Inr JNull
      else case py_int t of
             Inr n \<Rightarrow> Inr (JInt n)
           | Inl e \<Rightarrow> if e \<in> {ValueError, TypeError} then Inr t else Inl e)"

definition extraer_temp_dia :: "json \<Rightarrow> string \<Rightarrow> py_error + temps" where
  "extraer_temp_dia datos fecha_objetivo =
     then_do (extraer_try datos fecha_objetivo) (\<lambda>tt.
     then_do (convertir (fst tt)) (\<lambda>t_min.
     then_do (convertir (snd tt)) (\<lambda>t_max.
     Inr (t_min, t_max))))"

section \<open>The dataset store\<close>

text \<open>
  A record of the collection phase. The temperatures have the type \<open>'t\<close>: the values the
  extractor returned while collecting, and an integer or nothing (\<open>int option\<close>) where the
  store computes with them.
\<close>

record 't dato =
  d_municipio :: string
  d_codigo :: string
  d_provincia :: string
  d_habitantes :: int
  d_es_capital :: bool
  d_t_min :: 't
  d_t_max :: 't
  d_fecha :: string

text \<open>
  A record of the persisted dataset, with the keys \<^verbatim>\<open>guardar_json\<close> writes. A stored
  record carries all of them, so \<^verbatim>\<open>r.get("fecha")\<close> and \<^verbatim>\<open>r["codigo"]\<close> find their key.
\<close>

record registro =
  r_nombre :: string
  r_codigo :: string
  r_provincia :: string
  r_hab :: int
  r_min :: "int option"
  r_max :: "int option"
  r_media :: "rat option"
  r_fecha :: string
  r_capital :: bool

text \<open>
  The dataset file before the run: absent, not parseable as JSON, JSON that is not an
  object, or an object whose key \<^verbatim>\<open>registros\<close> is missing (\<open>None\<close>) or holds the records.
\<close>

datatype fichero = NoExiste | Corrupto | NoObjeto | Objeto "registro list option"

text \<open>The object the run writes.\<close>

record salida =
  actualizado :: string
  dias_disponibles :: "string list"
  total_municipios :: nat
  registros :: "registro list"

definition escrito :: "salida \<Rightarrow> fichero" where
  "escrito s = Objeto (Some (registros s))"

text \<open>
  The quotient \<^verbatim>\<open>(t_min + t_max) / 2\<close> of two integers is a float: the double nearest to
  the exact quotient, a tie going to the even mantissa, and \<^verbatim>\<open>OverflowError\<close> when that
  double would be \<open>2 ^ 1024\<close> or more in size. Halving is exact on doubles, so the quotient
  is half of the double nearest to the sum. \<open>exceso m\<close> is the number of bits by which
  \<open>m\<close> exceeds the 53 bits of a mantissa.
\<close>

function exceso :: "int \<Rightarrow> nat" where
  "exceso m = (if m < 2 ^ 53 then 0 else Suc (exceso (m div 2)))"
  by pat_completeness auto
termination
  by (relation "measure nat") auto

text \<open>The double nearest to an integer that is not negative, and to any integer.\<close>

definition redondear53 :: "int \<Rightarrow> int" where
  "redondear53 m =
     (let sh = exceso m; q = m div 2 ^ sh; r = m mod 2 ^ sh
      in if sh = 0 then m
         else if 2 ^ (sh - 1) < r \<or> (r = 2 ^ (sh - 1) \<and> odd q) then (q + 1) * 2 ^ sh
         else q * 2 ^ sh)"

definition a_float :: "int \<Rightarrow> int" where
  "a_float n = sgn n * redondear53 \<bar>n\<bar>"

definition mitad :: "int \<Rightarrow> py_error + rat" where
  "mitad n =
     (if 2 ^ 1025 \<le> \<bar>a_float n\<bar> then Inl OverflowError else Inr (of_int (a_float n) / 2))"

text \<open>
  \<^verbatim>\<open>round(x, 1)\<close> on the exact value of \<open>x\<close>: to the nearest tenth, a tie to the even one.
  The float returned is the double nearest to that decimal; for a multiple of one half,
  which is all the quotient above can be, it is \<open>x\<close> itself.
\<close>

definition py_round1 :: "rat \<Rightarrow> rat" where
  "py_round1 x =
     (let y = x * 10; f = \<lfloor>y\<rfloor>; d = y - of_int f
      in of_int (if d < 1 / 2 then f else if 1 / 2 < d then f + 1
                 else if even f then f else f + 1) / 10)"

definition media_de :: "int option \<Rightarrow> int option \<Rightarrow> py_error + rat option" where
  "media_de t_min t_max =
     (case (t_min, t_max) of
        (Some a, Some b) \<Rightarrow> then_do (mitad (a + b)) (\<lambda>x. Inr (Some (py_round1 x)))
      | _ \<Rightarrow> Inr None)"

text \<open>
  Step 1: load the existing records; a file that does not parse starts from nothing, and
  on JSON that is not an object \<^verbatim>\<open>data_anterior.get\<close> raises.
\<close>

fun cargar :: "fichero \<Rightarrow> py_error + registro list" where
  "cargar NoExiste = Inr []"
| "cargar Corrupto = Inr []"
| "cargar NoObjeto = Inl AttributeError"
| "cargar (Objeto None) = Inr []"
| "cargar (Objeto (Some rs)) = Inr rs"

text \<open>Step 4: one record for each entry of each province's list, in the order of the dict.\<close>

definition construir :: "string \<Rightarrow> (int option) dato \<Rightarrow> py_error + registro" where
  "construir nombre_prov d =
     then_do (media_de (d_t_min d) (d_t_max d)) (\<lambda>media.
     Inr \<lparr> r_nombre = d_municipio d, r_codigo = d_codigo d, r_provincia = nombre_prov,
           r_hab = d_habitantes d, r_min = d_t_min d, r_max = d_t_max d,
           r_media = media, r_fecha = d_fecha d, r_capital = d_es_capital d \<rparr>)"

fun construir_todos :: "string \<Rightarrow> (int option) dato list \<Rightarrow> py_error + registro list" where
  "construir_todos nombre_prov [] = Inr []"
| "construir_todos nombre_prov (d # datos) =
     then_do (construir nombre_prov d) (\<lambda>r.
     then_do (construir_todos nombre_prov datos) (\<lambda>rs. Inr (r # rs)))"

fun registros_hoy :: "(string \<times> (int option) dato list) list \<Rightarrow> py_error + registro list" where
  "registros_hoy [] = Inr []"
| "registros_hoy ((nombre_prov, datos) # resto) =
     then_do (construir_todos nombre_prov datos) (\<lambda>rs.
     then_do (registros_hoy resto) (\<lambda>rs'. Inr (rs @ rs')))"

text \<open>
  \<^verbatim>\<open>guardar_json(datos_por_provincia, json_path, dias_retener)\<close>. The clock is the function
  \<open>hace\<close>: \<open>hace n\<close> is the date \<open>n\<close> days before now in the format \<^verbatim>\<open>%Y-%m-%d\<close>, so
  \<^verbatim>\<open>hoy\<close> is \<open>hace 0\<close> and \<^verbatim>\<open>fecha_limite\<close> is \<open>hace dias_retener\<close>; \<open>ahora\<close> is the time stamp.
  The result is the content of the file after the run, or the exception that ends it.
\<close>

definition guardar_json ::
  "(int \<Rightarrow> string) \<Rightarrow> string \<Rightarrow> (string \<times> (int option) dato list) list \<Rightarrow> fichero \<Rightarrow> int
     \<Rightarrow> py_error + salida"
where
  "guardar_json hace ahora datos_por_provincia json_path dias_retener =
     (let hoy = hace 0;
          fecha_limite = hace dias_retener
      in then_do (cargar json_path) (\<lambda>registros_existentes.
         let registros_existentes = filter (\<lambda>r. r_fecha r \<noteq> hoy) registros_existentes;
             registros_existentes = filter (\<lambda>r. fecha_limite \<le> r_fecha r) registros_existentes
         in then_do (registros_hoy datos_por_provincia) (\<lambda>registros_de_hoy.
            let todos_registros = registros_existentes @ registros_de_hoy
            in Inr \<lparr> actualizado = ahora,
                     dias_disponibles = sort (remdups (map r_fecha todos_registros)),
                     total_municipios = length (remdups (map r_codigo todos_registros)),
                     registros = todos_registros \<rparr>)))"

text \<open>Two runs with the same batch, the second on the file the first one wrote.\<close>

definition dos_veces ::
  "(int \<Rightarrow> string) \<Rightarrow> string \<Rightarrow> string \<Rightarrow> (string \<times> (int option) dato list) list \<Rightarrow> fichero
     \<Rightarrow> int \<Rightarrow> py_error + salida"
where
  "dos_veces hace ahora1 ahora2 datos_por_provincia json_path dias_retener =
     then_do (guardar_json hace ahora1 datos_por_provincia json_path dias_retener) (\<lambda>s1.
     guardar_json hace ahora2 datos_por_provincia (escrito s1) dias_retener)"

text \<open>All records of a batch, and the records of a dataset that carry a given date.\<close>

definition lote :: "(string \<times> 't dato list) list \<Rightarrow> 't dato list" where
  "lote datos_por_provincia = concat (map snd datos_por_provincia)"

definition del_dia :: "string \<Rightarrow> registro list \<Rightarrow> registro list" where
  "del_dia f rs = filter (\<lambda>r. r_fecha r = f) rs"

text \<open>
  A clock for the examples: the run takes place on 5 March 2024 and \<open>reloj_marzo n\<close> is the
  date \<open>n\<close> days earlier, for up to ten days back (2024 is a leap year).
\<close>

definition fechas_marzo :: "string list" where
  "fechas_marzo =
     [''2024-03-05'', ''2024-03-04'', ''2024-03-03'', ''2024-03-02'', ''2024-03-01'',
      ''2024-02-29'', ''2024-02-28'', ''2024-02-27'', ''2024-02-26'', ''2024-02-25'',
      ''2024-02-24'']"

definition reloj_marzo :: "int \<Rightarrow> string" where
  "reloj_marzo n = (if 0 \<le> n \<and> n \<le> 10 then fechas_marzo ! nat n else [])"

section \<open>The remote data client\<close>











section \<open>The municipality directory\<close>

definition PROVINCIAS :: "(string \<times> string) list" where
  "PROVINCIAS =
     [
      (''01'', [CHR 0xC1] @ ''lava''), (''02'', ''Albacete''), (''03'', ''Alicante''),
      (''04'', ''Almer'' @ [CHR 0xED] @ ''a''), (''05'', [CHR 0xC1] @ ''vila''), (''06'', ''Badajoz''),
      (''07'', ''Baleares''), (''08'', ''Barcelona''), (''09'', ''Burgos''),
      (''10'', ''C'' @ [CHR 0xE1] @ ''ceres''), (''11'', ''C'' @ [CHR 0xE1] @ ''diz''), (''12'', ''Castell'' @ [CHR 0xF3] @ ''n''),
      (''13'', ''Ciudad Real''), (''14'', ''C'' @ [CHR 0xF3] @ ''rdoba''), (''15'', ''A Coru'' @ [CHR 0xF1] @ ''a''),
      (''16'', ''Cuenca''), (''17'', ''Girona''), (''18'', ''Granada''),
      (''19'', ''Guadalajara''), (''20'', ''Gipuzkoa''), (''21'', ''Huelva''),
      (''22'', ''Huesca''), (''23'', ''Ja'' @ [CHR 0xE9] @ ''n''), (''24'', ''Le'' @ [CHR 0xF3] @ ''n''),
      (''25'', ''Lleida''), (''26'', ''La Rioja''), (''27'', ''Lugo''),
      (''28'', ''Madrid''), (''29'', ''M'' @ [CHR 0xE1] @ ''laga''), (''30'', ''Murcia''),
      (''31'', ''Navarra''), (''32'', ''Ourense''), (''33'', ''Asturias''),
      (''34'', ''Palencia''), (''35'', ''Las Palmas''), (''36'', ''Pontevedra''),
      (''37'', ''Salamanca''), (''38'', ''S.C. Tenerife''), (''39'', ''Cantabria''),
      (''40'', ''Segovia''), (''41'', ''Sevilla''), (''42'', ''Soria''),
      (''43'', ''Tarragona''), (''44'', ''Teruel''), (''45'', ''Toledo''),
      (''46'', ''Valencia''), (''47'', ''Valladolid''), (''48'', ''Bizkaia''),
      (''49'', ''Zamora''), (''50'', ''Zaragoza''), (''51'', ''Ceuta''),
      (''52'', ''Melilla'')
     ]"

definition CAPITALES_CODIGOS :: "string set" where
  "CAPITALES_CODIGOS =
     {
      ''15030'', ''02003'', ''03014'', ''04013'', ''01059'', ''33044'', ''05019'', ''06015'',
      ''07040'', ''08019'', ''48020'', ''09059'', ''10037'', ''11012'', ''39075'', ''12040'',
      ''51001'', ''13034'', ''14021'', ''16078'', ''20069'', ''17079'', ''18087'', ''19130'',
      ''21041'', ''22125'', ''23050'', ''24089'', ''25120'', ''27028'', ''28079'', ''29067'',
      ''52001'', ''30030'', ''31201'', ''32054'', ''34120'', ''35016'', ''36038'', ''26089'',
      ''37274'', ''38038'', ''40194'', ''41091'', ''42173'', ''43148'', ''44216'', ''45168'',
      ''46250'', ''47186'', ''49275'', ''50297''
     }"

text \<open>The cache file: absent, not parseable, or parsed.\<close>

datatype archivo = NoHay | Ilegible | Legible json

text \<open>\<^verbatim>\<open>mun_id.startswith("id")\<close>: a method of strings only.\<close>

fun startswith_id :: "json \<Rightarrow> py_error + bool" where
  "startswith_id (JStr s) = Inr (take 2 s = ''id'')"
| "startswith_id _ = Inl AttributeError"

fun str_de :: "json \<Rightarrow> string" where
  "str_de (JStr s) = s"
| "str_de _ = []"

text \<open>\<^verbatim>\<open>provincias[nombre_prov].append(m)\<close> on the \<^verbatim>\<open>defaultdict(list)\<close>.\<close>

fun anadir :: "string \<Rightarrow> 'a \<Rightarrow> (string \<times> 'a list) list \<Rightarrow> (string \<times> 'a list) list" where
  "anadir k v [] = [(k, [v])]"
| "anadir k v ((k', vs) # rest) =
     (if k = k' then (k', vs @ [v]) # rest else (k', vs) # anadir k v rest)"

text \<open>
  One entry of the grouped directory: the population, by which the list is sorted, and
  the dict that is stored.
\<close>

definition entrada :: "string \<Rightarrow> json \<Rightarrow> int \<Rightarrow> int \<Rightarrow> json" where
  "entrada cod_completo nombre habitantes altitud =
     JDict [(''codigo'', JStr cod_completo), (''nombre'', nombre),
            (''habitantes'', JInt habitantes), (''altitud'', JInt altitud),
            (''es_capital'', JBool (cod_completo \<in> CAPITALES_CODIGOS))]"

fun agrupar ::
  "json list \<Rightarrow> (string \<times> (int \<times> json) list) list
     \<Rightarrow> py_error + (string \<times> (int \<times> json) list) list"
where
  "agrupar [] provincias = Inr provincias"
| "agrupar (mun # rest) provincias =
     then_do (py_get mun ''id'' (JStr [])) (\<lambda>mun_id.
     then_do (startswith_id mun_id) (\<lambda>empieza.
     if \<not> empieza then agrupar rest provincias
     else
       (let cod_completo = drop 2 (str_de mun_id);
            cod_prov = take 2 cod_completo;
            nombre_prov = (case map_of PROVINCIAS cod_prov of
                             Some n \<Rightarrow> n | None \<Rightarrow> ''Provincia '' @ cod_prov)
        in then_do (py_get mun ''nombre'' (JStr [])) (\<lambda>nombre.
           then_do (py_get mun ''num_hab'' (JStr ''0'')) (\<lambda>num_hab.
           then_do (py_int (if truthy num_hab then num_hab else JStr ''0'')) (\<lambda>habitantes.
           then_do (py_get mun ''altitud'' (JStr ''0'')) (\<lambda>alt.
           then_do (py_int (if truthy alt then alt else JStr ''0'')) (\<lambda>altitud.
           agrupar rest
             (anadir nombre_prov
                (habitantes, entrada cod_completo nombre habitantes altitud)
                provincias)))))))))"

text \<open>\<^verbatim>\<open>sort(key=habitantes, reverse=True)\<close>: descending and stable.\<close>

definition ordenar :: "(int \<times> json) list \<Rightarrow> (int \<times> json) list" where
  "ordenar ms = sort_key (\<lambda>m. - fst m) ms"

definition a_json :: "(string \<times> (int \<times> json) list) list \<Rightarrow> json" where
  "a_json provincias = JDict (map (\<lambda>(prov, ms). (prov, JList (map snd (ordenar ms)))) provincias)"

text \<open>
  The first block: a cache written today is returned as it is. A file that does not parse
  and a missing key \<^verbatim>\<open>provincias\<close> are caught by \<^verbatim>\<open>except (json.JSONDecodeError, KeyError)\<close>.
\<close>

datatype 'a decision = Retorna 'a | Sigue

definition leer_cache :: "string \<Rightarrow> archivo \<Rightarrow> py_error + json decision" where
  "leer_cache hoy cache_file =
     (case cache_file of
        NoHay \<Rightarrow> Inr Sigue
      | Ilegible \<Rightarrow> Inl JSONDecodeError
      | Legible cache \<Rightarrow>
          then_do (py_get cache ''fecha'' JNull) (\<lambda>fecha.
            if eq_str fecha hoy then then_do (py_item cache ''provincias'') (\<lambda>v. Inr (Retorna v))
            else Inr Sigue))"

definition usar_cache :: "string \<Rightarrow> archivo \<Rightarrow> py_error + json decision" where
  "usar_cache hoy cache_file =
     (case leer_cache hoy cache_file of
        Inl e \<Rightarrow> if e \<in> {JSONDecodeError, KeyError} then Inr Sigue else Inl e
      | Inr d \<Rightarrow> Inr d)"

text \<open>The branch \<^verbatim>\<open>if not datos\<close>: the old cache is read again, outside any \<^verbatim>\<open>try\<close>.\<close>

definition cache_antigua :: "archivo \<Rightarrow> py_error + json" where
  "cache_antigua cache_file =
     (case cache_file of
        NoHay \<Rightarrow> Inr (JDict [])
      | Ilegible \<Rightarrow> Inl JSONDecodeError
      | Legible cache \<Rightarrow> py_get cache ''provincias'' (JDict []))"

text \<open>
  \<^verbatim>\<open>obtener_municipios(api_key)\<close>. \<open>respuesta_api\<close> is what
  \<^verbatim>\<open>aemet_request("/maestro/municipios", api_key)\<close> gives if it is called. The result is the
  value returned and the cache file after the call.
\<close>

definition obtener_municipios ::
  "string \<Rightarrow> archivo \<Rightarrow> py_error + json \<Rightarrow> py_error + json \<times> archivo"
where
  "obtener_municipios hoy cache_file respuesta_api =
     then_do (usar_cache hoy cache_file) (\<lambda>dec.
       case dec of
         Retorna v \<Rightarrow> Inr (v, cache_file)
       | Sigue \<Rightarrow>
           then_do respuesta_api (\<lambda>datos.
             if \<not> truthy datos then
               then_do (cache_antigua cache_file) (\<lambda>v. Inr (v, cache_file))
             else
               then_do (py_iter datos) (\<lambda>muns.
               then_do (agrupar muns []) (\<lambda>provincias.
               (let total = sum_list (map (\<lambda>(prov, ms). int (length ms)) provincias);
                    cache = JDict [(''fecha'', JStr hoy), (''total'', JInt total),
                                   (''provincias'', a_json provincias)]
                in Inr (a_json provincias, Legible cache))))))"

section \<open>The collection driver, capitals only\<close>

record municipio =
  m_codigo :: string
  m_nombre :: string
  m_habitantes :: int
  m_altitud :: int
  m_es_capital :: bool

text \<open>The municipalities of a province for which a forecast is requested.\<close>

definition seleccionar_capitales :: "municipio list \<Rightarrow> municipio list" where
  "seleccionar_capitales municipios =
     (let capitales = filter m_es_capital municipios
      in if capitales = [] then take 1 municipios else capitales)"

text \<open>
  The inner loop. \<open>peticion endpoint\<close> is what \<^verbatim>\<open>aemet_request(endpoint, api_key)\<close> gives:
  a value, \<open>JNull\<close> for none, or an exception that leaves the driver.
\<close>

fun recoger_provincia ::
  "string \<Rightarrow> (string \<Rightarrow> py_error + json) \<Rightarrow> string \<Rightarrow> municipio list
     \<Rightarrow> py_error + json dato list"
where
  "recoger_provincia hoy peticion nombre_prov [] = Inr []"
| "recoger_provincia hoy peticion nombre_prov (mun # rest) =
     then_do (peticion (''/prediccion/especifica/municipio/diaria/'' @ m_codigo mun)) (\<lambda>datos.
     then_do (if truthy datos then extraer_temp_dia datos hoy else Inr (JNull, JNull)) (\<lambda>tt.
     then_do (recoger_provincia hoy peticion nombre_prov rest) (\<lambda>datos_prov.
     Inr (\<lparr> d_municipio = m_nombre mun, d_codigo = m_codigo mun,
             d_provincia = nombre_prov, d_habitantes = m_habitantes mun,
             d_es_capital = True, d_t_min = fst tt, d_t_max = snd tt,
             d_fecha = hoy \<rparr> # datos_prov))))"

fun recoger_capitales ::
  "string \<Rightarrow> (string \<Rightarrow> py_error + json) \<Rightarrow> (string \<times> municipio list) list
     \<Rightarrow> py_error + (string \<times> json dato list) list"
where
  "recoger_capitales hoy peticion [] = Inr []"
| "recoger_capitales hoy peticion ((nombre_prov, municipios) # rest) =
     then_do (recoger_provincia hoy peticion nombre_prov (seleccionar_capitales municipios))
       (\<lambda>datos_prov.
     then_do (recoger_capitales hoy peticion rest) (\<lambda>resultados.
     Inr ((nombre_prov, datos_prov) # resultados)))"

text \<open>
  \<^verbatim>\<open>obtener_temperaturas_capitales(api_key)\<close>, given the directory: the provinces are
  visited in the order of their names.
\<close>

definition obtener_temperaturas_capitales ::
  "string \<Rightarrow> (string \<Rightarrow> py_error + json) \<Rightarrow> (string \<times> municipio list) list
     \<Rightarrow> py_error + (string \<times> json dato list) list"
where
  "obtener_temperaturas_capitales hoy peticion provincias_mun =
     recoger_capitales hoy peticion (sort_key fst provincias_mun)"

text \<open>Population descending, as the directory sorts each province.\<close>

definition por_habitantes :: "municipio list \<Rightarrow> bool" where
  "por_habitantes ms = sorted_wrt (\<lambda>a b. m_habitantes b \<le> m_habitantes a) ms"

section \<open>The program\<close>

text \<open>
  \<^verbatim>\<open>get_api_key(cli_key)\<close>, with the value of the environment variable (\<open>None\<close>: not set)
  and the content of the key file (\<open>None\<close>: no file). \<open>None\<close> as result is \<^verbatim>\<open>sys.exit(1)\<close>.
\<close>

definition get_api_key :: "string option \<Rightarrow> string option \<Rightarrow> string option \<Rightarrow> string option" where
  "get_api_key cli_key env_var key_file =
     (let env_key = strip (case env_var of None \<Rightarrow> [] | Some v \<Rightarrow> v);
          del_archivo = (case key_file of
                           None \<Rightarrow> None
                         | Some txt \<Rightarrow> if strip txt \<noteq> [] then Some (strip txt) else None);
          sin_argumento = (if env_key \<noteq> [] then Some env_key else del_archivo)
      in case cli_key of
           None \<Rightarrow> sin_argumento
         | Some k \<Rightarrow> if k \<noteq> [] then Some (strip k) else sin_argumento)"

text \<open>The arguments of the command line, as \<^verbatim>\<open>parse_args\<close> returns them.\<close>

record args =
  a_api_key :: "string option"
  a_solo_capitales :: bool
  a_provincia :: "string option"

text \<open>
  How the program ends: it returns from \<^verbatim>\<open>main\<close>, it calls \<^verbatim>\<open>sys.exit\<close>, or an exception
  that nothing catches ends it, which the interpreter reports with status 1.
\<close>

datatype terminacion = Normal | SysExit nat | Excepcion py_error

fun estado_salida :: "terminacion \<Rightarrow> nat" where
  "estado_salida Normal = 0"
| "estado_salida (SysExit n) = n"
| "estado_salida (Excepcion e) = 1"

text \<open>
  \<^verbatim>\<open>main()\<close>. The functions it calls are given by what they do in this run: the two
  collection functions return a mapping for a key (and a province filter) or raise, and
  \<open>guardar\<close> is the call \<^verbatim>\<open>guardar_json(datos_por_provincia)\<close>, which returns or raises.
\<close>

definition main ::
  "args \<Rightarrow> string option \<Rightarrow> string option
     \<Rightarrow> (string \<Rightarrow> py_error + (string \<times> 'd list) list)
     \<Rightarrow> (string \<Rightarrow> string option \<Rightarrow> py_error + (string \<times> 'd list) list)
     \<Rightarrow> ((string \<times> 'd list) list \<Rightarrow> py_error + 'r) \<Rightarrow> terminacion"
where
  "main a env_var key_file capitales completo guardar =
     (case get_api_key (a_api_key a) env_var key_file of
        None \<Rightarrow> SysExit 1
      | Some api_key \<Rightarrow>
          (case (if a_solo_capitales a then capitales api_key
                 else completo api_key (a_provincia a)) of
             Inl e \<Rightarrow> Excepcion e
           | Inr datos_por_provincia \<Rightarrow>
               if datos_por_provincia = [] then SysExit 1
               else (case guardar datos_por_provincia of
                       Inl e \<Rightarrow> Excepcion e
                     | Inr s \<Rightarrow> Normal)))"

section \<open>Example data\<close>

text \<open>Forecast payloads with two days, 2 and 3 January 2024.\<close>

definition dia_json :: "string \<Rightarrow> json \<Rightarrow> json" where
  "dia_json f temperatura = JDict [(''fecha'', JStr f), (''temperatura'', temperatura)]"

definition payload :: "json list \<Rightarrow> json" where
  "payload dias = JList [JDict [(''prediccion'', JDict [(''dia'', JList dias)])]]"

definition bloque :: "json \<Rightarrow> json \<Rightarrow> json" where
  "bloque t_max t_min = JDict [(''maxima'', t_max), (''minima'', t_min)]"

definition periodos :: "json \<Rightarrow> json \<Rightarrow> json" where
  "periodos t_max t_min =
     JList [JDict [(''descripcion'', JStr Maxima), (''valor'', t_max)],
            JDict [(''descripcion'', JStr Minima), (''valor'', t_min)]]"

definition payload_directo :: json where
  "payload_directo =
     payload [dia_json ''2024-01-02T00:00:00'' (bloque (JInt 20) (JInt 10)),
              dia_json ''2024-01-03T00:00:00'' (bloque (JInt 22) (JInt 12))]"

definition payload_periodos :: json where
  "payload_periodos =
     payload [dia_json ''2024-01-02T00:00:00'' (periodos (JInt 20) (JInt 10)),
              dia_json ''2024-01-03T00:00:00'' (bloque (JInt 22) (JInt 12))]"

definition payload_sin_prediccion :: json where
  "payload_sin_prediccion = JList [JDict [(''prediccion'', JNull)]]"

definition payload_sin_dato :: json where
  "payload_sin_dato =
     payload [dia_json ''2024-01-02T00:00:00'' (bloque (JStr ''n/d'') (JInt 10))]"

text \<open>Batches of 5 March 2024 and a dataset with records of 10, 8, 6, 3, 1 and 0 days before.\<close>

definition dato_ej ::
  "string \<Rightarrow> string \<Rightarrow> int option \<Rightarrow> int option \<Rightarrow> string \<Rightarrow> (int option) dato" where
  "dato_ej nom cod tmin tmax f =
     \<lparr> d_municipio = nom, d_codigo = cod, d_provincia = ''Madrid'', d_habitantes = 1000,
       d_es_capital = False, d_t_min = tmin, d_t_max = tmax, d_fecha = f \<rparr>"

definition lote_ejemplo :: "(string \<times> (int option) dato list) list" where
  "lote_ejemplo =
     [(''Madrid'', [dato_ej ''Madrid'' ''28079'' (Some 10) (Some 20) ''2024-03-05'',
                    dato_ej ''Getafe'' ''28065'' None (Some 20) ''2024-03-05''])]"

definition lote_repetido :: "(string \<times> (int option) dato list) list" where
  "lote_repetido =
     [(''Madrid'', [dato_ej ''Madrid'' ''28079'' (Some 10) (Some 20) ''2024-03-05'',
                    dato_ej ''Madrid'' ''28079'' (Some 11) (Some 21) ''2024-03-05''])]"

definition registro_ej :: "string \<Rightarrow> registro" where
  "registro_ej f =
     \<lparr> r_nombre = ''Madrid'', r_codigo = ''28079'', r_provincia = ''Madrid'', r_hab = 1000,
       r_min = Some 8, r_max = Some 18, r_media = Some 13, r_fecha = f, r_capital = False \<rparr>"

definition fichero_ejemplo :: fichero where
  "fichero_ejemplo = Objeto (Some (map (\<lambda>n. registro_ej (reloj_marzo n)) [10, 8, 6, 3, 1, 0]))"

text \<open>What the run of 5 March writes for the batch and the seeded dataset.\<close>

definition registro_madrid_hoy :: registro where
  "registro_madrid_hoy =
     \<lparr> r_nombre = ''Madrid'', r_codigo = ''28079'', r_provincia = ''Madrid'', r_hab = 1000,
       r_min = Some 10, r_max = Some 20, r_media = Some 15, r_fecha = ''2024-03-05'',
       r_capital = False \<rparr>"

definition registro_getafe_hoy :: registro where
  "registro_getafe_hoy =
     \<lparr> r_nombre = ''Getafe'', r_codigo = ''28065'', r_provincia = ''Madrid'', r_hab = 1000,
       r_min = None, r_max = Some 20, r_media = None, r_fecha = ''2024-03-05'',
       r_capital = False \<rparr>"

definition salida_ejemplo :: salida where
  "salida_ejemplo =
     \<lparr> actualizado = ''2024-03-05 08:00'',
       dias_disponibles = [''2024-02-28'', ''2024-03-02'', ''2024-03-04'', ''2024-03-05''],
       total_municipios = 2,
       registros = [registro_ej ''2024-02-28'', registro_ej ''2024-03-02'',
                    registro_ej ''2024-03-04'', registro_madrid_hoy, registro_getafe_hoy] \<rparr>"

text \<open>A batch whose temperatures sum to \<open>2 ^ 53 + 1\<close>, which no double holds.\<close>

definition lote_grande :: "(string \<times> (int option) dato list) list" where
  "lote_grande =
     [(''Madrid'', [dato_ej ''Madrid'' ''28079'' (Some 9007199254740992) (Some 1) ''2024-03-05''])]"






text \<open>
  A province without a flagged capital and one with it, both sorted by population, and a
  client that obtains no forecast.
\<close>

definition mun_ej :: "string \<Rightarrow> string \<Rightarrow> int \<Rightarrow> bool \<Rightarrow> municipio" where
  "mun_ej cod nom hab cap =
     \<lparr> m_codigo = cod, m_nombre = nom, m_habitantes = hab, m_altitud = 600,
       m_es_capital = cap \<rparr>"

definition soria_sin_capital :: "municipio list" where
  "soria_sin_capital =
     [mun_ej ''42020'' ''Almazan'' 5500 False, mun_ej ''42043'' ''El Burgo de Osma'' 5000 False]"

definition madrid_con_capital :: "municipio list" where
  "madrid_con_capital =
     [mun_ej ''28079'' ''Madrid'' 3200000 True, mun_ej ''28092'' ''Mostoles'' 210000 False]"

definition sin_respuesta :: "string \<Rightarrow> py_error + json" where
  "sin_respuesta endpoint = Inr JNull"

definition registro_almazan :: "json dato" where
  "registro_almazan =
     \<lparr> d_municipio = ''Almazan'', d_codigo = ''42020'', d_provincia = ''Soria'',
       d_habitantes = 5500, d_es_capital = True, d_t_min = JNull, d_t_max = JNull,
       d_fecha = ''2024-03-05'' \<rparr>"

definition args_ej :: args where
  "args_ej = \<lparr> a_api_key = Some ''clave'', a_solo_capitales = True, a_provincia = None \<rparr>"

section \<open>The extractor: what it returns\<close>

text \<open>
  C3. When no day carries the target date, the extractor falls back to the first day. It
  then reads the first day's block only if the block is a dict: for the payload whose
  first day (2 January) holds its maximum 20 and minimum 10 as a list of period entries
  and the target 1 January it returns nothing for both, although the same block is read
  as (10, 20) when 2 January is the target. With the block written as a dict the fallback
  returns (10, 20).
\<close>

theorem extraer_primer_dia_lista:
  "extraer_temp_dia payload_periodos ''2024-01-01'' = Inr (JNull, JNull)
   \<and> extraer_temp_dia payload_periodos ''2024-01-02'' = Inr (JInt 10, JInt 20)
   \<and> extraer_temp_dia payload_directo ''2024-01-01'' = Inr (JInt 10, JInt 20)"
  by code_simp

text \<open>
  The fallback on a dict-shaped block, for any payload of days none of which carries the
  target date: the values of the first day's block, converted.
\<close>

lemma buscar_dia_sin_fecha:
  assumes "\<forall>dia \<in> set ds. \<exists>kvs s. dia = JDict kvs \<and> map_of kvs ''fecha'' = Some (JStr s)
                                  \<and> take 10 s \<noteq> fecha_objetivo"
  shows "buscar_dia ds fecha_objetivo = Inr (JNull, JNull)"
  using assms
proof (induction ds)
  case Nil
  then show ?case by simp
next
  case (Cons d ds)
  then obtain kvs s where "d = JDict kvs" "map_of kvs ''fecha'' = Some (JStr s)"
    "take 10 s \<noteq> fecha_objetivo"
    by auto
  with Cons show ?case
    by (simp add: then_do_def)
qed

lemma extraer_primer_dia_directo:
  assumes "\<forall>dia \<in> set (d # ds). \<exists>kvs s. dia = JDict kvs \<and> map_of kvs ''fecha'' = Some (JStr s)
                                  \<and> take 10 s \<noteq> fecha_objetivo"
    and "py_get d ''temperatura'' (JDict []) = Inr (JDict blk)"
  shows "extraer_temp_dia (payload (d # ds)) fecha_objetivo =
           then_do (convertir (case map_of blk ''minima'' of Some v \<Rightarrow> v | None \<Rightarrow> JNull)) (\<lambda>t_min.
           then_do (convertir (case map_of blk ''maxima'' of Some v \<Rightarrow> v | None \<Rightarrow> JNull)) (\<lambda>t_max.
           Inr (t_min, t_max)))"
proof -
  have b: "buscar_dia (d # ds) fecha_objetivo = Inr (JNull, JNull)"
    using assms(1) by (rule buscar_dia_sin_fecha)
  have "extraer_cuerpo (payload (d # ds)) fecha_objetivo =
          Inr (case map_of blk ''minima'' of Some v \<Rightarrow> v | None \<Rightarrow> JNull,
               case map_of blk ''maxima'' of Some v \<Rightarrow> v | None \<Rightarrow> JNull)"
    unfolding extraer_cuerpo_def payload_def
    by (simp add: then_do_def b primer_dia_def assms(2) del: buscar_dia.simps)
  then show ?thesis
    by (simp add: extraer_temp_dia_def extraer_try_def then_do_def split: sum.splits)
qed

text \<open>
  C4. The extractor does not return for every payload: a forecast entry whose
  \<^verbatim>\<open>prediccion\<close> is \<^verbatim>\<open>null\<close> raises \<^verbatim>\<open>AttributeError\<close>, which the handler does not list. And
  a value that \<^verbatim>\<open>int\<close> rejects is returned as it was found, not as nothing.
\<close>

theorem extraer_lanza_y_deja_valor:
  "extraer_temp_dia payload_sin_prediccion ''2024-01-02'' = Inl AttributeError
   \<and> extraer_temp_dia payload_sin_dato ''2024-01-02'' = Inr (JInt 10, JStr ''n/d'')"
  by code_simp

section \<open>The dataset store: merge, retention, average\<close>

text \<open>The float quotient is exact up to \<open>2 ^ 53\<close>, and rounding leaves a multiple of one half.\<close>

lemma py_round1_half: "py_round1 (of_int k / 2) = of_int k / 2"
proof -
  have "(of_int k / 2 :: rat) * 10 = of_int (5 * k)" by simp
  then show ?thesis unfolding py_round1_def Let_def by (simp only: floor_of_int) simp
qed

lemma exceso_cero: "m < 2 ^ 53 \<Longrightarrow> exceso m = 0"
  by (subst exceso.simps) simp

lemma redondear53_exacto:
  assumes "m \<le> 2 ^ 53"
  shows "redondear53 m = m"
proof (cases "m < 2 ^ 53")
  case True
  then show ?thesis by (simp add: redondear53_def exceso_cero)
next
  case False
  with assms have m: "m = 2 ^ 53" by simp
  have "exceso (2 ^ 53) = Suc (exceso (2 ^ 53 div 2))"
    by (subst exceso.simps) simp
  also have "(2 ^ 53 div 2 :: int) = 2 ^ 52" by simp
  also have "exceso (2 ^ 52) = 0" by (rule exceso_cero) simp
  finally have e: "exceso (2 ^ 53) = 1" by simp
  show ?thesis
    unfolding m redondear53_def e Let_def by simp
qed

lemma a_float_exacto:
  assumes "\<bar>n\<bar> \<le> 2 ^ 53"
  shows "a_float n = n"
  using redondear53_exacto[OF assms] by (simp add: a_float_def mult_sgn_abs)

lemma mitad_exacta:
  assumes "\<bar>n\<bar> \<le> 2 ^ 53"
  shows "mitad n = Inr (of_int n / 2)"
proof -
  have "(2 :: int) ^ 53 < 2 ^ 1025"
    by (rule power_strict_increasing) simp_all
  with assms have "\<not> 2 ^ 1025 \<le> \<bar>n\<bar>" by linarith
  then show ?thesis
    by (simp add: mitad_def a_float_exacto[OF assms])
qed

lemma media_de_casos:
  assumes "media_de x y = Inr m"
  shows "(\<forall>a b. x = Some a \<and> y = Some b \<longrightarrow>
            m = Some (of_int (a_float (a + b)) / 2)
            \<and> (\<bar>a + b\<bar> \<le> 2 ^ 53 \<longrightarrow>
                 m = Some (py_round1 (of_int (a + b) / 2)) \<and> m = Some (of_int (a + b) / 2)))
       \<and> (x = None \<or> y = None \<longrightarrow> m = None)"
proof (cases x)
  case None
  with assms show ?thesis by (simp add: media_de_def)
next
  case (Some a)
  show ?thesis
  proof (cases y)
    case None
    with Some assms show ?thesis by (simp add: media_de_def)
  next
    case (Some b)
    from assms \<open>x = Some a\<close> Some have m: "m = Some (of_int (a_float (a + b)) / 2)"
      by (auto simp: media_de_def then_do_def mitad_def py_round1_half split: if_splits)
    have "\<bar>a + b\<bar> \<le> 2 ^ 53 \<Longrightarrow> a_float (a + b) = a + b"
      by (rule a_float_exacto)
    with m \<open>x = Some a\<close> Some show ?thesis
      by (simp add: py_round1_half del: of_int_add)
  qed
qed

lemma construir_Inr:
  assumes "construir p d = Inr r"
  shows "r_fecha r = d_fecha d" "r_codigo r = d_codigo d" "r_min r = d_t_min d"
    "r_max r = d_t_max d" "media_de (d_t_min d) (d_t_max d) = Inr (r_media r)"
  using assms by (auto simp: construir_def then_do_def split: sum.splits)

lemma construir_todos_Inr:
  "construir_todos p ds = Inr rs \<Longrightarrow>
     map r_fecha rs = map d_fecha ds \<and> map r_codigo rs = map d_codigo ds
     \<and> (\<forall>r \<in> set rs. \<exists>d. construir p d = Inr r)"
proof (induction ds arbitrary: rs)
  case Nil
  then show ?case by simp
next
  case (Cons d ds)
  from Cons.prems obtain r rs' where r: "construir p d = Inr r"
    and rs': "construir_todos p ds = Inr rs'" and rs: "rs = r # rs'"
    by (auto simp: then_do_def split: sum.splits)
  from Cons.IH[OF rs'] construir_Inr(1,2)[OF r] r show ?case
    by (auto simp: rs)
qed

lemma registros_hoy_Inr:
  "registros_hoy dpp = Inr rs \<Longrightarrow>
     map r_fecha rs = map d_fecha (lote dpp) \<and> map r_codigo rs = map d_codigo (lote dpp)
     \<and> (\<forall>r \<in> set rs. \<exists>p d. construir p d = Inr r)"
proof (induction dpp arbitrary: rs)
  case Nil
  then show ?case by (simp add: lote_def)
next
  case (Cons a dpp)
  obtain p ds where a: "a = (p, ds)" by (cases a)
  from Cons.prems obtain r1 r2 where r1: "construir_todos p ds = Inr r1"
    and r2: "registros_hoy dpp = Inr r2" and rs: "rs = r1 @ r2"
    unfolding a by (auto simp: then_do_def split: sum.splits)
  from construir_todos_Inr[OF r1] Cons.IH[OF r2] show ?case
    unfolding rs a lote_def by simp blast
qed

lemma guardar_json_Inr:
  assumes "guardar_json hace ahora dpp f n = Inr s"
  obtains ex rh where "cargar f = Inr ex" "registros_hoy dpp = Inr rh"
    "registros s = filter (\<lambda>r. hace n \<le> r_fecha r) (filter (\<lambda>r. r_fecha r \<noteq> hace 0) ex) @ rh"
    "s = \<lparr> actualizado = ahora,
           dias_disponibles = sort (remdups (map r_fecha (registros s))),
           total_municipios = length (remdups (map r_codigo (registros s))),
           registros = registros s \<rparr>"
  using assms
  by (auto simp: guardar_json_def Let_def then_do_def split: sum.splits)

lemma guardar_json_de_partes:
  assumes "cargar f = Inr ex" "registros_hoy dpp = Inr rh"
  shows "guardar_json hace ahora dpp f n =
     Inr \<lparr> actualizado = ahora,
           dias_disponibles = sort (remdups (map r_fecha
              (filter (\<lambda>r. hace n \<le> r_fecha r) (filter (\<lambda>r. r_fecha r \<noteq> hace 0) ex) @ rh))),
           total_municipios = length (remdups (map r_codigo
              (filter (\<lambda>r. hace n \<le> r_fecha r) (filter (\<lambda>r. r_fecha r \<noteq> hace 0) ex) @ rh))),
           registros = filter (\<lambda>r. hace n \<le> r_fecha r) (filter (\<lambda>r. r_fecha r \<noteq> hace 0) ex) @ rh \<rparr>"
  using assms by (simp add: guardar_json_def Let_def then_do_def)

text \<open>What a run that returns has loaded, built and written.\<close>

lemma fecha_registros_hoy:
  assumes "registros_hoy dpp = Inr rh" "r \<in> set rh"
  shows "\<exists>d \<in> set (lote dpp). r_fecha r = d_fecha d"
proof -
  from assms(2) have "r_fecha r \<in> set (map r_fecha rh)" by simp
  then have "r_fecha r \<in> set (map d_fecha (lote dpp))"
    using registros_hoy_Inr[OF assms(1)] by simp
  then show ?thesis by auto
qed

lemma del_dia_registros_hoy:
  assumes "registros_hoy dpp = Inr rh" "\<forall>d \<in> set (lote dpp). d_fecha d = h"
  shows "del_dia h rh = rh"
  using assms(2) fecha_registros_hoy[OF assms(1)] by (auto simp: del_dia_def filter_id_conv)

lemma no_hoy_registros_hoy:
  assumes "registros_hoy dpp = Inr rh" "\<forall>d \<in> set (lote dpp). d_fecha d = h"
  shows "filter (\<lambda>r. r_fecha r \<noteq> h) rh = []"
  using assms(2) fecha_registros_hoy[OF assms(1)] by (auto simp: filter_empty_conv)

lemma cuenta_codigos:
  assumes "registros_hoy dpp = Inr rh"
  shows "length (filter (\<lambda>r. r_codigo r = c) rh)
     = length (filter (\<lambda>d. d_codigo d = c) (lote dpp))"
proof -
  have "length (filter (\<lambda>r. r_codigo r = c) rh)
      = length (filter (\<lambda>x. x = c) (map r_codigo rh))"
    by (simp add: filter_map comp_def)
  also have "\<dots> = length (filter (\<lambda>x. x = c) (map d_codigo (lote dpp)))"
    using registros_hoy_Inr[OF assms] by simp
  also have "\<dots> = length (filter (\<lambda>d. d_codigo d = c) (lote dpp))"
    by (simp add: filter_map comp_def)
  finally show ?thesis .
qed

lemma del_dia_guardar:
  assumes "\<forall>d \<in> set (lote dpp). d_fecha d = hace 0"
    and "guardar_json hace t dpp f n = Inr s"
  shows "registros_hoy dpp = Inr (del_dia (hace 0) (registros s))"
proof -
  from assms(2) obtain ex rh where rh: "registros_hoy dpp = Inr rh"
    and r: "registros s = filter (\<lambda>r. hace n \<le> r_fecha r)
                            (filter (\<lambda>r. r_fecha r \<noteq> hace 0) ex) @ rh"
    by (rule guardar_json_Inr)
  have "del_dia (hace 0) (filter (\<lambda>r. hace n \<le> r_fecha r)
          (filter (\<lambda>r. r_fecha r \<noteq> hace 0) ex)) = []"
    by (auto simp: del_dia_def filter_empty_conv)
  then have "del_dia (hace 0) (registros s) = rh"
    using del_dia_registros_hoy[OF rh assms(1)]
    by (simp add: r del_dia_def)
  with rh show ?thesis by simp
qed

lemma segunda_vez:
  assumes "\<forall>d \<in> set (lote dpp). d_fecha d = hace 0"
    and "guardar_json hace t1 dpp f n = Inr s1"
  shows "guardar_json hace t2 dpp (escrito s1) n = Inr (s1\<lparr>actualizado := t2\<rparr>)"
proof -
  from assms(2) obtain ex rh where rh: "registros_hoy dpp = Inr rh"
    and r: "registros s1 = filter (\<lambda>r. hace n \<le> r_fecha r)
                            (filter (\<lambda>r. r_fecha r \<noteq> hace 0) ex) @ rh"
    and s1: "s1 = \<lparr> actualizado = t1,
           dias_disponibles = sort (remdups (map r_fecha (registros s1))),
           total_municipios = length (remdups (map r_codigo (registros s1))),
           registros = registros s1 \<rparr>"
    by (rule guardar_json_Inr)
  let ?K = "filter (\<lambda>r. hace n \<le> r_fecha r) (filter (\<lambda>r. r_fecha r \<noteq> hace 0) ex)"
  have "filter (\<lambda>r. r_fecha r \<noteq> hace 0) ?K = ?K" by (rule filter_True) simp
  moreover have "filter (\<lambda>r. hace n \<le> r_fecha r) ?K = ?K" by (rule filter_True) simp
  moreover have "filter (\<lambda>r. r_fecha r \<noteq> hace 0) rh = []"
    using rh assms(1) by (rule no_hoy_registros_hoy)
  ultimately have k: "filter (\<lambda>r. hace n \<le> r_fecha r)
          (filter (\<lambda>r. r_fecha r \<noteq> hace 0) (registros s1)) @ rh = registros s1"
    by (simp only: r filter_append) simp
  have c: "cargar (escrito s1) = Inr (registros s1)"
    by (simp add: escrito_def)
  show ?thesis
    unfolding guardar_json_de_partes[OF c rh] k
    by (subst (3) s1) simp
qed

text \<open>
  A run returns when the file is not JSON of another shape than an object and no sum of
  two temperatures exceeds \<open>2 ^ 53\<close> in size.
\<close>

lemma construir_todos_devuelve:
  assumes "\<forall>d \<in> set ds. \<forall>a b. d_t_min d = Some a \<and> d_t_max d = Some b \<longrightarrow> \<bar>a + b\<bar> \<le> 2 ^ 53"
  shows "\<exists>rs. construir_todos p ds = Inr rs"
  using assms
proof (induction ds)
  case Nil
  then show ?case by simp
next
  case (Cons d ds)
  then obtain rs where rs: "construir_todos p ds = Inr rs" by auto
  have "\<exists>m. media_de (d_t_min d) (d_t_max d) = Inr m"
  proof (cases "d_t_min d")
    case None
    then show ?thesis by (simp add: media_de_def)
  next
    case (Some a)
    show ?thesis
    proof (cases "d_t_max d")
      case None
      with Some show ?thesis by (simp add: media_de_def)
    next
      case (Some b)
      with \<open>d_t_min d = Some a\<close> Cons.prems have "\<bar>a + b\<bar> \<le> 2 ^ 53" by simp
      from mitad_exacta[OF this] \<open>d_t_min d = Some a\<close> Some show ?thesis
        by (simp add: media_de_def then_do_def)
    qed
  qed
  then show ?case
    using rs by (auto simp: construir_def then_do_def)
qed

lemma registros_hoy_devuelve:
  assumes "\<forall>d \<in> set (lote dpp). \<forall>a b. d_t_min d = Some a \<and> d_t_max d = Some b \<longrightarrow> \<bar>a + b\<bar> \<le> 2 ^ 53"
  shows "\<exists>rs. registros_hoy dpp = Inr rs"
  using assms
proof (induction dpp)
  case Nil
  then show ?case by simp
next
  case (Cons a dpp)
  obtain p ds where a: "a = (p, ds)" by (cases a)
  from Cons.prems have "\<forall>d \<in> set ds. \<forall>a b. d_t_min d = Some a \<and> d_t_max d = Some b \<longrightarrow> \<bar>a + b\<bar> \<le> 2 ^ 53"
    unfolding lote_def a by auto
  from construir_todos_devuelve[OF this, of p] obtain r1 where "construir_todos p ds = Inr r1" ..
  moreover from Cons.prems have "\<forall>d \<in> set (lote dpp). \<forall>a b. d_t_min d = Some a \<and> d_t_max d = Some b \<longrightarrow> \<bar>a + b\<bar> \<le> 2 ^ 53"
    unfolding lote_def a by auto
  then have "\<exists>rs. registros_hoy dpp = Inr rs" by (rule Cons.IH)
  ultimately show ?case by (auto simp: a then_do_def)
qed

lemma guardar_json_devuelve:
  assumes "f \<noteq> NoObjeto"
    and "\<forall>d \<in> set (lote dpp). \<forall>a b. d_t_min d = Some a \<and> d_t_max d = Some b \<longrightarrow> \<bar>a + b\<bar> \<le> 2 ^ 53"
  shows "\<exists>s. guardar_json hace t dpp f n = Inr s"
proof -
  from assms(1) obtain ex where "cargar f = Inr ex"
    by (cases f rule: cargar.cases) auto
  moreover from registros_hoy_devuelve[OF assms(2)] obtain rh where "registros_hoy dpp = Inr rh" ..
  ultimately show ?thesis
    by (simp add: guardar_json_de_partes)
qed

text \<open>The run of the example.\<close>

lemma registros_hoy_ejemplo:
  "registros_hoy lote_ejemplo = Inr [registro_madrid_hoy, registro_getafe_hoy]"
  by code_simp

lemma ejecucion_ejemplo:
  "guardar_json reloj_marzo ''2024-03-05 08:00'' lote_ejemplo fichero_ejemplo 7 = Inr salida_ejemplo"
  by code_simp

lemma fechas_lote_ejemplo:
  "map d_fecha (lote lote_ejemplo) = [reloj_marzo 0, reloj_marzo 0]"
  by (simp add: lote_def lote_ejemplo_def dato_ej_def reloj_marzo_def fechas_marzo_def)

text \<open>
  C1, as the claim states it, fails: when the batch itself lists a code twice, the records
  of the day after the second run hold that code twice.
\<close>

theorem guardar_json_repetidos_counterexample:
  "then_do (dos_veces reloj_marzo ''2024-03-05 08:00'' ''2024-03-05 09:00'' lote_repetido NoExiste 7)
     (\<lambda>s2. Inr (map r_codigo (del_dia (reloj_marzo 0) (registros s2))))
     = Inr [''28079'', ''28079'']"
  by code_simp

text \<open>
  C1, amended. For every dataset file and every batch whose records carry today's date:
  when the first run returns, so does the second run with the same batch on the same day;
  it leaves the records of the dataset as the first run wrote them; the records of that
  day are exactly the records built from the batch; each code occurs among them as often
  as the batch lists it; so there is exactly one record for each code and that day when
  the batch lists each code once. The first run returns when the file is absent, not
  parseable or an object and no sum of two temperatures exceeds \<open>2 ^ 53\<close> in size.
\<close>

theorem guardar_json_idempotente:
  assumes "\<forall>d \<in> set (lote dpp). d_fecha d = hace 0"
  shows "(\<forall>s1. guardar_json hace t1 dpp f n = Inr s1 \<longrightarrow>
            (\<exists>s2. dos_veces hace t1 t2 dpp f n = Inr s2)
            \<and> (\<forall>s2. dos_veces hace t1 t2 dpp f n = Inr s2 \<longrightarrow>
                 registros s2 = registros s1
                 \<and> registros_hoy dpp = Inr (del_dia (hace 0) (registros s2))
                 \<and> (\<forall>c. length (filter (\<lambda>r. r_codigo r = c)
                                 (del_dia (hace 0) (registros s2)))
                        = length (filter (\<lambda>d. d_codigo d = c) (lote dpp)))
                 \<and> (distinct (map d_codigo (lote dpp)) \<longrightarrow>
                      distinct (map r_codigo (del_dia (hace 0) (registros s2))))))
       \<and> (f \<noteq> NoObjeto
            \<and> (\<forall>d \<in> set (lote dpp). \<forall>a b. d_t_min d = Some a \<and> d_t_max d = Some b
                   \<longrightarrow> \<bar>a + b\<bar> \<le> 2 ^ 53)
          \<longrightarrow> (\<exists>s1. guardar_json hace t1 dpp f n = Inr s1))"
proof (intro conjI allI impI)
  fix s1 assume run1: "guardar_json hace t1 dpp f n = Inr s1"
  have d: "dos_veces hace t1 t2 dpp f n = Inr (s1\<lparr>actualizado := t2\<rparr>)"
    using segunda_vez[OF assms run1, of t2] by (simp add: dos_veces_def then_do_def run1)
  then show "\<exists>s2. dos_veces hace t1 t2 dpp f n = Inr s2" ..
  have h: "registros_hoy dpp = Inr (del_dia (hace 0) (registros s1))"
    using assms run1 by (rule del_dia_guardar)
  have c: "length (filter (\<lambda>r. r_codigo r = c) (del_dia (hace 0) (registros s1)))
                   = length (filter (\<lambda>d. d_codigo d = c) (lote dpp))" for c
    using h by (rule cuenta_codigos)
  have m: "map r_codigo (del_dia (hace 0) (registros s1)) = map d_codigo (lote dpp)"
    using registros_hoy_Inr[OF h] by simp
  fix s2 assume "dos_veces hace t1 t2 dpp f n = Inr s2"
  with d have s2: "registros s2 = registros s1" by simp
  show "registros s2 = registros s1" by (rule s2)
  show "registros_hoy dpp = Inr (del_dia (hace 0) (registros s2))"
    unfolding s2 by (rule h)
  show "length (filter (\<lambda>r. r_codigo r = c) (del_dia (hace 0) (registros s2)))
          = length (filter (\<lambda>d. d_codigo d = c) (lote dpp))" for c
    unfolding s2 by (rule c)
  show "distinct (map r_codigo (del_dia (hace 0) (registros s2)))"
    if "distinct (map d_codigo (lote dpp))"
    unfolding s2 m by (rule that)
next
  assume "f \<noteq> NoObjeto
            \<and> (\<forall>d \<in> set (lote dpp). \<forall>a b. d_t_min d = Some a \<and> d_t_max d = Some b
                   \<longrightarrow> \<bar>a + b\<bar> \<le> 2 ^ 53)"
  then show "\<exists>s1. guardar_json hace t1 dpp f n = Inr s1"
    using guardar_json_devuelve by blast
qed

theorem guardar_json_idempotente_witness:
  "map d_fecha (lote lote_ejemplo) = [reloj_marzo 0, reloj_marzo 0]
   \<and> guardar_json reloj_marzo ''2024-03-05 08:00'' lote_ejemplo fichero_ejemplo 7
       = Inr salida_ejemplo
   \<and> dos_veces reloj_marzo ''2024-03-05 08:00'' ''2024-03-05 09:00'' lote_ejemplo fichero_ejemplo 7
       = Inr (salida_ejemplo\<lparr>actualizado := ''2024-03-05 09:00''\<rparr>)
   \<and> registros_hoy lote_ejemplo = Inr (del_dia (reloj_marzo 0) (registros salida_ejemplo))
   \<and> distinct (map r_codigo (del_dia (reloj_marzo 0) (registros salida_ejemplo)))"
  (is "?A \<and> ?B \<and> ?C \<and> ?D \<and> ?E")
proof -
  have h: "\<forall>d \<in> set (lote lote_ejemplo). d_fecha d = reloj_marzo 0"
    using fechas_lote_ejemplo by (simp add: lote_def lote_ejemplo_def dato_ej_def)
  have d: "distinct (map d_codigo (lote lote_ejemplo))"
    by (simp add: lote_def lote_ejemplo_def dato_ej_def)
  have c: ?C
    by code_simp
  from guardar_json_idempotente[where hace = reloj_marzo and dpp = lote_ejemplo, OF h,
         THEN conjunct1, rule_format, OF ejecucion_ejemplo, THEN conjunct2, rule_format, OF c]
  have "?D \<and> ?E" using d by simp
  with fechas_lote_ejemplo ejecucion_ejemplo c show ?thesis by simp
qed

text \<open>
  C2. With seven days of retention, a clock on which the limit does not lie after today,
  and a batch of today's records: in the dataset that the run writes no record is dated
  before the limit (in the order in which the code compares dates, that of their
  strings), and every record of the file dated at the limit or later, other than today's,
  is kept. The run writes one when the file is absent, not parseable or an object and no
  sum of two temperatures exceeds \<open>2 ^ 53\<close> in size.
\<close>

theorem guardar_json_retencion:
  assumes "hace 7 \<le> hace 0" and "\<forall>d \<in> set (lote dpp). d_fecha d = hace 0"
  shows "(\<forall>s. guardar_json hace t dpp f 7 = Inr s \<longrightarrow>
            (\<forall>r \<in> set (registros s). \<not> r_fecha r < hace 7)
            \<and> (\<forall>ex. cargar f = Inr ex \<longrightarrow>
                 (\<forall>r \<in> set ex. hace 7 \<le> r_fecha r \<and> r_fecha r \<noteq> hace 0
                     \<longrightarrow> r \<in> set (registros s))))
       \<and> (f \<noteq> NoObjeto
            \<and> (\<forall>d \<in> set (lote dpp). \<forall>a b. d_t_min d = Some a \<and> d_t_max d = Some b
                   \<longrightarrow> \<bar>a + b\<bar> \<le> 2 ^ 53)
          \<longrightarrow> (\<exists>s. guardar_json hace t dpp f 7 = Inr s))"
proof (intro conjI allI impI)
  fix s assume run: "guardar_json hace t dpp f 7 = Inr s"
  from run obtain ex rh where ex: "cargar f = Inr ex" and rh: "registros_hoy dpp = Inr rh"
    and r: "registros s = filter (\<lambda>r. hace 7 \<le> r_fecha r)
                            (filter (\<lambda>r. r_fecha r \<noteq> hace 0) ex) @ rh"
    by (rule guardar_json_Inr)
  show "\<forall>r \<in> set (registros s). \<not> r_fecha r < hace 7"
    using assms fecha_registros_hoy[OF rh] by (auto simp: r)
  fix ex' assume "cargar f = Inr ex'"
  with ex have "ex' = ex" by simp
  then show "\<forall>r \<in> set ex'. hace 7 \<le> r_fecha r \<and> r_fecha r \<noteq> hace 0
                     \<longrightarrow> r \<in> set (registros s)"
    by (auto simp: r)
next
  assume "f \<noteq> NoObjeto
            \<and> (\<forall>d \<in> set (lote dpp). \<forall>a b. d_t_min d = Some a \<and> d_t_max d = Some b
                   \<longrightarrow> \<bar>a + b\<bar> \<le> 2 ^ 53)"
  then show "\<exists>s. guardar_json hace t dpp f 7 = Inr s"
    using guardar_json_devuelve by blast
qed

text \<open>
  The dataset seeded with records of 10, 8, 6, 3, 1 and 0 days ago: after the run the
  dates are those of 6, 3 and 1 days ago and today's, the last from the batch.
\<close>

theorem guardar_json_retencion_witness:
  "reloj_marzo 7 \<le> reloj_marzo 0
   \<and> map d_fecha (lote lote_ejemplo) = [reloj_marzo 0, reloj_marzo 0]
   \<and> guardar_json reloj_marzo ''2024-03-05 08:00'' lote_ejemplo fichero_ejemplo 7
       = Inr salida_ejemplo
   \<and> list_all (\<lambda>r. \<not> r_fecha r < reloj_marzo 7) (registros salida_ejemplo)
   \<and> then_do (cargar fichero_ejemplo) (\<lambda>ex. Inr (map r_fecha ex))
       = Inr [''2024-02-24'', ''2024-02-26'', ''2024-02-28'', ''2024-03-02'', ''2024-03-04'',
              ''2024-03-05'']
   \<and> map r_fecha (registros salida_ejemplo)
       = [''2024-02-28'', ''2024-03-02'', ''2024-03-04'', ''2024-03-05'', ''2024-03-05'']"
  (is "?A \<and> ?B \<and> ?C \<and> ?D \<and> ?E \<and> ?F")
proof -
  have h1: ?A
    by (simp add: reloj_marzo_def fechas_marzo_def)
  have h2: "\<forall>d \<in> set (lote lote_ejemplo). d_fecha d = reloj_marzo 0"
    using fechas_lote_ejemplo by (simp add: lote_def lote_ejemplo_def dato_ej_def)
  have e1: ?E
    by code_simp
  have e2: ?F
    by code_simp
  from guardar_json_retencion[OF h1 h2, THEN conjunct1, rule_format, OF ejecucion_ejemplo]
  have c: ?D unfolding list_all_iff by (rule conjunct1)
  from h1 fechas_lote_ejemplo ejecucion_ejemplo c e1 e2 show ?thesis by (intro conjI)
qed

text \<open>
  C8, as the claim states it, fails: the average is a float. For a minimum of \<open>2 ^ 53\<close> and a
  maximum of 1 the record holds 4503599627370496, where half the sum, which has one
  decimal, is 4503599627370496.5.
\<close>

theorem media_derivada_counterexample:
  "then_do (registros_hoy lote_grande)
     (\<lambda>rs. Inr (map (\<lambda>r. (r_min r, r_max r, r_media r)) rs))
     = Inr [(Some 9007199254740992, Some 1, Some 4503599627370496)]
   \<and> py_round1 (of_int (9007199254740992 + 1) / 2) = 9007199254740993 / 2
   \<and> (9007199254740993 / 2 :: rat) \<noteq> 4503599627370496"
proof (intro conjI)
  show "then_do (registros_hoy lote_grande)
     (\<lambda>rs. Inr (map (\<lambda>r. (r_min r, r_max r, r_media r)) rs))
     = Inr [(Some 9007199254740992, Some 1, Some 4503599627370496)]"
    by code_simp
  show "py_round1 (of_int (9007199254740992 + 1) / 2) = 9007199254740993 / 2"
    using py_round1_half[of "9007199254740992 + 1"] by simp
  show "(9007199254740993 / 2 :: rat) \<noteq> 4503599627370496"
    by simp
qed

text \<open>
  C8, amended. Every record built by the run has no average when one temperature is
  missing. With both present the average is half of the double nearest to their sum; as
  long as the sum is at most \<open>2 ^ 53\<close> in size this is the value of
  \<^verbatim>\<open>round((min + max) / 2, 1)\<close> on the exact quotient, the exact half of the sum, and
  the records are built.
\<close>

theorem media_derivada:
  "(\<forall>rs. registros_hoy dpp = Inr rs \<longrightarrow>
      (\<forall>r \<in> set rs.
         (\<forall>a b. r_min r = Some a \<and> r_max r = Some b \<longrightarrow>
            r_media r = Some (of_int (a_float (a + b)) / 2)
            \<and> (\<bar>a + b\<bar> \<le> 2 ^ 53 \<longrightarrow>
                 r_media r = Some (py_round1 (of_int (a + b) / 2))
                 \<and> r_media r = Some (of_int (a + b) / 2)))
         \<and> (r_min r = None \<or> r_max r = None \<longrightarrow> r_media r = None)))
   \<and> ((\<forall>d \<in> set (lote dpp). \<forall>a b. d_t_min d = Some a \<and> d_t_max d = Some b
           \<longrightarrow> \<bar>a + b\<bar> \<le> 2 ^ 53)
        \<longrightarrow> (\<exists>rs. registros_hoy dpp = Inr rs))"
proof (rule conjI; intro allI impI ballI)
  fix rs r assume rs: "registros_hoy dpp = Inr rs" and "r \<in> set rs"
  with registros_hoy_Inr[OF rs] obtain p d where "construir p d = Inr r"
    by blast
  from construir_Inr(3,4,5)[OF this]
  have "media_de (r_min r) (r_max r) = Inr (r_media r)" by simp
  then show "(\<forall>a b. r_min r = Some a \<and> r_max r = Some b \<longrightarrow>
        r_media r = Some (of_int (a_float (a + b)) / 2)
        \<and> (\<bar>a + b\<bar> \<le> 2 ^ 53 \<longrightarrow>
             r_media r = Some (py_round1 (of_int (a + b) / 2))
             \<and> r_media r = Some (of_int (a + b) / 2)))
     \<and> (r_min r = None \<or> r_max r = None \<longrightarrow> r_media r = None)"
    by (rule media_de_casos)
next
  assume "\<forall>d \<in> set (lote dpp). \<forall>a b. d_t_min d = Some a \<and> d_t_max d = Some b
           \<longrightarrow> \<bar>a + b\<bar> \<le> 2 ^ 53"
  then show "\<exists>rs. registros_hoy dpp = Inr rs"
    by (rule registros_hoy_devuelve)
qed

text \<open>The batch with min 10 and max 20 for one municipality and no min for the other.\<close>

theorem media_derivada_witness:
  "registros_hoy lote_ejemplo = Inr [registro_madrid_hoy, registro_getafe_hoy]
   \<and> (r_min registro_madrid_hoy, r_max registro_madrid_hoy) = (Some 10, Some 20)
   \<and> r_media registro_madrid_hoy = Some 15
   \<and> r_min registro_getafe_hoy = None
   \<and> r_media registro_getafe_hoy = None"
proof -
  note t = media_derivada[of lote_ejemplo, THEN conjunct1, rule_format, OF registros_hoy_ejemplo]
  have v0: "r_min registro_madrid_hoy = Some 10 \<and> r_max registro_madrid_hoy = Some 20"
    by (simp add: registro_madrid_hoy_def)
  have b: "\<bar>10 + 20 :: int\<bar> \<le> 2 ^ 53"
    by simp
  have v1: "r_min registro_getafe_hoy = None \<or> r_max registro_getafe_hoy = None"
    by (simp add: registro_getafe_hoy_def)
  from t[of registro_madrid_hoy, THEN conjunct1, rule_format, OF _ v0,
         THEN conjunct2, rule_format, OF _ b, THEN conjunct2]
  have a0: "r_media registro_madrid_hoy = Some (of_int (10 + 20) / 2)"
    by simp
  from t[of registro_getafe_hoy, THEN conjunct2, rule_format, OF _ v1]
  have a1: "r_media registro_getafe_hoy = None"
    by simp
  from a0 have "r_media registro_madrid_hoy = Some 15" by simp
  with registros_hoy_ejemplo v0 a1 show ?thesis
    by (simp add: registro_getafe_hoy_def)
qed

text \<open>A sum too large for a float ends the run.\<close>

lemma mitad_desborda: "media_de (Some (2 ^ 1025)) (Some 0) = Inl OverflowError"
  by code_simp

section \<open>The municipality directory: an unreadable cache\<close>

text \<open>
  C6. With a cache file that is not JSON and a failed download (\<^verbatim>\<open>aemet_request\<close> returned
  \<^verbatim>\<open>None\<close>), the directory reads the file a second time outside any handler, and the
  parse error leaves the function. The first reading of the same file is caught.
\<close>

theorem obtener_municipios_cache_ilegible:
  "obtener_municipios ''2024-03-05'' Ilegible (Inr JNull) = Inl JSONDecodeError
   \<and> usar_cache ''2024-03-05'' Ilegible = Inr Sigue"
  by (simp add: obtener_municipios_def usar_cache_def leer_cache_def cache_antigua_def
        then_do_def)

text \<open>What the directory returns from the cache, and without one.\<close>

lemma obtener_municipios_respaldo:
  "obtener_municipios hoy NoHay (Inr JNull) = Inr (JDict [], NoHay)"
  "eq_str (case map_of kvs ''fecha'' of Some v \<Rightarrow> v | None \<Rightarrow> JNull) hoy \<Longrightarrow>
     map_of kvs ''provincias'' = Some p \<Longrightarrow>
     obtener_municipios hoy (Legible (JDict kvs)) r = Inr (p, Legible (JDict kvs))"
  "\<not> eq_str (case map_of kvs ''fecha'' of Some v \<Rightarrow> v | None \<Rightarrow> JNull) hoy \<Longrightarrow>
     obtener_municipios hoy (Legible (JDict kvs)) (Inr JNull)
       = Inr (case map_of kvs ''provincias'' of Some v \<Rightarrow> v | None \<Rightarrow> JDict [],
              Legible (JDict kvs))"
  by (simp_all add: obtener_municipios_def usar_cache_def leer_cache_def cache_antigua_def
        then_do_def)

section \<open>The remote data client: attempts, pauses, exceptions\<close>

lemma is_dict_get: "is_dict v \<Longrightarrow> \<exists>x. py_get v k d = Inr x"
  by (cases v) simp_all













section \<open>The collection driver: capitals\<close>

lemma recoger_provincia_ok:
  "recoger_provincia hoy peticion prov ms = Inr ds \<Longrightarrow>
     map d_codigo ds = map m_codigo ms \<and> (\<forall>d \<in> set ds. d_es_capital d)"
proof (induction ms arbitrary: ds)
  case Nil
  then show ?case by simp
next
  case (Cons m ms)
  then show ?case
    by (auto simp: then_do_def split: sum.splits)
qed

lemma recoger_capitales_ok:
  "recoger_capitales hoy peticion pm = Inr res \<Longrightarrow>
     map (\<lambda>(p, ds). (p, map d_codigo ds)) res
       = map (\<lambda>(p, ms). (p, map m_codigo (seleccionar_capitales ms))) pm
     \<and> (\<forall>(p, ds) \<in> set res. \<forall>d \<in> set ds. d_es_capital d)"
proof (induction pm arbitrary: res)
  case Nil
  then show ?case by simp
next
  case (Cons a pm)
  obtain p ms where a: "a = (p, ms)" by (cases a)
  from Cons.prems obtain ds rs where
    ds: "recoger_provincia hoy peticion p (seleccionar_capitales ms) = Inr ds" and
    rs: "recoger_capitales hoy peticion pm = Inr rs" and
    res: "res = (p, ds) # rs"
    unfolding a by (auto simp: then_do_def split: sum.splits)
  from recoger_provincia_ok[OF ds] Cons.IH[OF rs] show ?case
    by (simp add: res a)
qed

lemma primero_es_mayor:
  assumes "por_habitantes ms" and "m \<in> set ms"
  shows "m_habitantes m \<le> m_habitantes (hd ms)"
  using assms by (cases ms) (auto simp: por_habitantes_def)

lemma provincia_recogida:
  assumes "obtener_temperaturas_capitales hoy peticion provincias_mun = Inr res"
    and "(nombre_prov, municipios) \<in> set provincias_mun"
  shows "\<exists>ds. (nombre_prov, ds) \<in> set res
             \<and> map d_codigo ds = map m_codigo (seleccionar_capitales municipios)"
proof -
  let ?f = "\<lambda>(p, ds). (p, map d_codigo ds)"
  let ?g = "\<lambda>(p, ms). (p, map m_codigo (seleccionar_capitales ms))"
  from assms(1) have "map ?f res = map ?g (sort_key fst provincias_mun)"
    using recoger_capitales_ok[of hoy peticion "sort_key fst provincias_mun" res]
    by (simp add: obtener_temperaturas_capitales_def)
  moreover from assms(2) have "?g (nombre_prov, municipios) \<in> set (map ?g (sort_key fst provincias_mun))"
    by (simp add: image_iff) force
  ultimately have "?g (nombre_prov, municipios) \<in> set (map ?f res)"
    by simp
  then obtain x where x: "x \<in> set res" "?f x = ?g (nombre_prov, municipios)"
    by auto
  obtain p ds where pd: "x = (p, ds)"
    by (cases x)
  with x(2) have "p = nombre_prov" "map d_codigo ds = map m_codigo (seleccionar_capitales municipios)"
    by simp_all
  with x(1) pd show ?thesis
    by blast
qed

text \<open>
  C7. For a province whose list is not empty and sorted by population, descending: with
  no municipality flagged as capital exactly the first one is selected, and no
  municipality of the province has more inhabitants; with flagged ones exactly these are
  selected; and when the run returns, the records of the province are those of the
  selected municipalities, in their order.
\<close>

theorem capitales_seleccion:
  assumes "municipios \<noteq> []" and "por_habitantes municipios"
  shows "(filter m_es_capital municipios = [] \<longrightarrow>
            seleccionar_capitales municipios = [hd municipios]
            \<and> (\<forall>m \<in> set municipios. m_habitantes m \<le> m_habitantes (hd municipios)))
       \<and> (filter m_es_capital municipios \<noteq> [] \<longrightarrow>
            seleccionar_capitales municipios = filter m_es_capital municipios)
       \<and> (\<forall>res. obtener_temperaturas_capitales hoy peticion provincias_mun = Inr res
                 \<and> (nombre_prov, municipios) \<in> set provincias_mun \<longrightarrow>
              (\<exists>ds. (nombre_prov, ds) \<in> set res
                    \<and> map d_codigo ds = map m_codigo (seleccionar_capitales municipios)))"
proof (intro conjI)
  show "filter m_es_capital municipios = [] \<longrightarrow>
            seleccionar_capitales municipios = [hd municipios]
            \<and> (\<forall>m \<in> set municipios. m_habitantes m \<le> m_habitantes (hd municipios))"
    using assms primero_es_mayor[OF assms(2)]
    by (cases municipios) (simp_all add: seleccionar_capitales_def)
  show "filter m_es_capital municipios \<noteq> [] \<longrightarrow>
            seleccionar_capitales municipios = filter m_es_capital municipios"
    by (simp add: seleccionar_capitales_def)
  show "\<forall>res. obtener_temperaturas_capitales hoy peticion provincias_mun = Inr res
                 \<and> (nombre_prov, municipios) \<in> set provincias_mun \<longrightarrow>
              (\<exists>ds. (nombre_prov, ds) \<in> set res
                    \<and> map d_codigo ds = map m_codigo (seleccionar_capitales municipios))"
    using provincia_recogida by blast
qed

theorem capitales_seleccion_witness:
  "map m_es_capital soria_sin_capital = [False, False]
   \<and> map m_habitantes soria_sin_capital = [5500, 5000]
   \<and> seleccionar_capitales soria_sin_capital = [mun_ej ''42020'' ''Almazan'' 5500 False]
   \<and> seleccionar_capitales madrid_con_capital = [mun_ej ''28079'' ''Madrid'' 3200000 True]"
proof -
  have s: "soria_sin_capital \<noteq> []" "por_habitantes soria_sin_capital"
    "filter m_es_capital soria_sin_capital = []"
    by (simp_all add: soria_sin_capital_def por_habitantes_def mun_ej_def)
  have m: "madrid_con_capital \<noteq> []" "por_habitantes madrid_con_capital"
    "filter m_es_capital madrid_con_capital \<noteq> []"
    by (simp_all add: madrid_con_capital_def por_habitantes_def mun_ej_def)
  from capitales_seleccion[OF s(1,2), THEN conjunct1, rule_format, OF s(3), THEN conjunct1]
  have a: "seleccionar_capitales soria_sin_capital = [mun_ej ''42020'' ''Almazan'' 5500 False]"
    by (simp add: soria_sin_capital_def)
  from capitales_seleccion[OF m(1,2), THEN conjunct2, THEN conjunct1, rule_format, OF m(3)]
  have b: "seleccionar_capitales madrid_con_capital = [mun_ej ''28079'' ''Madrid'' 3200000 True]"
    by (simp add: madrid_con_capital_def mun_ej_def)
  have c: "map m_es_capital soria_sin_capital = [False, False]"
    "map m_habitantes soria_sin_capital = [5500, 5000]"
    by (simp_all add: soria_sin_capital_def mun_ej_def)
  from c a b show ?thesis by (intro conjI)
qed

text \<open>
  C10. Every record that the capitals-only run emits carries the capital flag: also the
  record of a municipality that stands in for a province without a flagged capital and
  whose own entry is not flagged.
\<close>

theorem capitales_marcadas:
  assumes "obtener_temperaturas_capitales hoy peticion provincias_mun = Inr res"
  shows "\<forall>(p, ds) \<in> set res. \<forall>d \<in> set ds. d_es_capital d = True"
  using recoger_capitales_ok[of hoy peticion "sort_key fst provincias_mun" res] assms
  by (simp add: obtener_temperaturas_capitales_def)

theorem capitales_marcadas_witness:
  "map m_es_capital soria_sin_capital = [False, False]
   \<and> obtener_temperaturas_capitales ''2024-03-05'' sin_respuesta [(''Soria'', soria_sin_capital)]
       = Inr [(''Soria'', [registro_almazan])]
   \<and> d_es_capital registro_almazan = True"
proof -
  have c: "map m_es_capital soria_sin_capital = [False, False]"
    by (simp add: soria_sin_capital_def mun_ej_def)
  have r: "obtener_temperaturas_capitales ''2024-03-05'' sin_respuesta [(''Soria'', soria_sin_capital)]
       = Inr [(''Soria'', [registro_almazan])]"
    by (simp add: obtener_temperaturas_capitales_def seleccionar_capitales_def
          soria_sin_capital_def mun_ej_def sin_respuesta_def then_do_def registro_almazan_def)
  from capitales_marcadas[OF r] have "d_es_capital registro_almazan = True"
    by simp
  with c r show ?thesis by (intro conjI)
qed

section \<open>The program: exit status\<close>

lemma get_api_key_None:
  "get_api_key cli env_var key_file = None \<longleftrightarrow>
     (cli = None \<or> cli = Some [])
      \<and> strip (case env_var of None \<Rightarrow> [] | Some v \<Rightarrow> v) = []
      \<and> (case key_file of None \<Rightarrow> True | Some txt \<Rightarrow> strip txt = [])"
  by (auto simp: get_api_key_def Let_def split: option.splits)

text \<open>
  C9, as the claim states it, fails: with a key, no dataset file and a collected mapping
  that holds the province Madrid with no records, the program ends with status 0. The
  capitals-only run gives such a mapping when the directory lists a province without
  municipalities.
\<close>

theorem main_counterexample:
  "estado_salida (main args_ej None None (\<lambda>k. Inr [(''Madrid'', [])]) (\<lambda>k p. Inr [])
      (\<lambda>d. guardar_json reloj_marzo ''2024-03-05 08:00'' d NoExiste 7)) = 0
   \<and> lote [(''Madrid'', [] :: (int option) dato list)] = []
   \<and> obtener_temperaturas_capitales ''2024-03-05'' sin_respuesta [(''Madrid'', [])]
       = Inr [(''Madrid'', [])]"
  by (simp add: main_def args_ej_def get_api_key_def Let_def obtener_temperaturas_capitales_def
        seleccionar_capitales_def then_do_def lote_def guardar_json_def)

text \<open>
  C9, amended. The program ends with status 0 exactly when a key is found, the
  collection returns a mapping that is not empty and \<^verbatim>\<open>guardar_json\<close> returns; its status
  is not 0 otherwise: when no key is found (no argument or an empty one, the environment
  variable not set or blank, the key file missing or blank), when the collected mapping
  is empty, and when the collection or \<^verbatim>\<open>guardar_json\<close> raises. A mapping of provinces
  without records is not empty.
\<close>

theorem main_salida:
  "(estado_salida (main a env_var key_file capitales completo guardar) = 0 \<longleftrightarrow>
      (\<exists>k dpp s. get_api_key (a_api_key a) env_var key_file = Some k
         \<and> (if a_solo_capitales a then capitales k else completo k (a_provincia a)) = Inr dpp
         \<and> dpp \<noteq> [] \<and> guardar dpp = Inr s))
   \<and> (get_api_key (a_api_key a) env_var key_file = None \<longleftrightarrow>
        (a_api_key a = None \<or> a_api_key a = Some [])
        \<and> strip (case env_var of None \<Rightarrow> [] | Some v \<Rightarrow> v) = []
        \<and> (case key_file of None \<Rightarrow> True | Some txt \<Rightarrow> strip txt = []))"
proof (intro conjI)
  show "estado_salida (main a env_var key_file capitales completo guardar) = 0 \<longleftrightarrow>
      (\<exists>k dpp s. get_api_key (a_api_key a) env_var key_file = Some k
         \<and> (if a_solo_capitales a then capitales k else completo k (a_provincia a)) = Inr dpp
         \<and> dpp \<noteq> [] \<and> guardar dpp = Inr s)"
    by (auto simp: main_def split: option.splits sum.splits)
  show "get_api_key (a_api_key a) env_var key_file = None \<longleftrightarrow>
        (a_api_key a = None \<or> a_api_key a = Some [])
        \<and> strip (case env_var of None \<Rightarrow> [] | Some v \<Rightarrow> v) = []
        \<and> (case key_file of None \<Rightarrow> True | Some txt \<Rightarrow> strip txt = [])"
    by (rule get_api_key_None)
qed

text \<open>The same mapping with a dataset file that holds JSON but no object: the run raises.\<close>

lemma main_fichero_no_objeto:
  "estado_salida (main args_ej None None (\<lambda>k. Inr [(''Madrid'', [])]) (\<lambda>k p. Inr [])
      (\<lambda>d. guardar_json reloj_marzo ''2024-03-05 08:00'' d NoObjeto 7)) = 1"
  by (simp add: main_def args_ej_def get_api_key_def Let_def then_do_def guardar_json_def)

end
